theory Spec2Isabelle
  imports Main
begin

section \<open>Values, exceptions and completions\<close>

text \<open>
  The session manager of \<^verbatim>\<open>src/services/audioService.ts\<close> and the chat hook of
  \<^verbatim>\<open>src/hooks/useAudioChat.ts\<close>, embedded as state-passing functions. A method takes
  the state it runs on and returns how it completed (normally with a value, or by throwing)
  together with the state it leaves. A throw keeps the mutations made before it, as in the
  source. Each \<^verbatim>\<open>await\<close> is read as a sequential step: what the platform answered is an
  input of the call (the records \<open>Env\<close> and \<open>HookEnv\<close>), and no other callback runs between
  two steps of one call.
\<close>

type_synonym ref = nat

text \<open>
  A thrown JavaScript value. The source only ever asks \<^verbatim>\<open>error instanceof Error\<close> and then
  reads \<^verbatim>\<open>error.message\<close>.
\<close>

datatype thrown = Error (message: string) | NonError

datatype 'a completion = Returns 'a | Throws thrown

text \<open>Sequencing of two steps, and \<^verbatim>\<open>try { ... } catch (error) { ... }\<close>.\<close>

definition bind :: "'a completion \<times> 's \<Rightarrow> ('a \<Rightarrow> 's \<Rightarrow> 'b completion \<times> 's) \<Rightarrow> 'b completion \<times> 's" where
  "bind r k = (case r of (Returns x, s) \<Rightarrow> k x s | (Throws e, s) \<Rightarrow> (Throws e, s))"

definition catch :: "'a completion \<times> 's \<Rightarrow> (thrown \<Rightarrow> 's \<Rightarrow> 'a completion \<times> 's) \<Rightarrow> 'a completion \<times> 's" where
  "catch r h = (case r of (Returns x, s) \<Rightarrow> (Returns x, s) | (Throws e, s) \<Rightarrow> h e s)"

text \<open>The settled value of an awaited platform promise, or of a platform call that may throw.\<close>

definition await :: "thrown + 'a \<Rightarrow> 's \<Rightarrow> 'a completion \<times> 's" where
  "await p s = (case p of Inl e \<Rightarrow> (Throws e, s) | Inr x \<Rightarrow> (Returns x, s))"

definition awaitVoid :: "thrown option \<Rightarrow> 's \<Rightarrow> unit completion \<times> 's" where
  "awaitVoid p s = (case p of Some e \<Rightarrow> (Throws e, s) | None \<Rightarrow> (Returns (), s))"

text \<open>
  \<^verbatim>\<open>error instanceof Error ? error.message : fallback\<close>, the expression both files use to
  turn a caught value into text.
\<close>

fun messageOr :: "thrown \<Rightarrow> string \<Rightarrow> string" where
  "messageOr (Error m) fallback = m"
| "messageOr NonError fallback = fallback"

text \<open>
  The values \<^verbatim>\<open>JSON.parse\<close> produces, and \<^verbatim>\<open>undefined\<close> for a property that is absent.
  Numbers are never computed on, so their type is left open.
\<close>

typedecl number

datatype jsvalue =
    Undefined
  | Null
  | Bool bool
  | Num number
  | Str string
  | Arr "jsvalue list"
  | Obj "(string \<times> jsvalue) list"

text \<open>
  Reading a property \<^verbatim>\<open>data.p\<close>. On \<^verbatim>\<open>null\<close> and \<^verbatim>\<open>undefined\<close> it throws a TypeError
  (an \<^verbatim>\<open>Error\<close>; its wording is the engine's). An object gives its own property or
  \<^verbatim>\<open>undefined\<close>. The handler reads only \<^verbatim>\<open>type\<close>, \<^verbatim>\<open>text\<close> and \<^verbatim>\<open>error\<close>, which no
  built-in prototype defines, so every other value gives \<^verbatim>\<open>undefined\<close>.
\<close>

fun getProp :: "jsvalue \<Rightarrow> string \<Rightarrow> thrown + jsvalue" where
  "getProp Undefined p = Inl (Error ''Cannot read properties of undefined'')"
| "getProp Null p = Inl (Error ''Cannot read properties of null'')"
| "getProp (Obj kvs) p = Inr (case map_of kvs p of None \<Rightarrow> Undefined | Some v \<Rightarrow> v)"
| "getProp v p = Inr Undefined"

section \<open>The session and the platform objects it holds\<close>

datatype MediaStream = MediaStream (getTracks: "ref list")

record AudioSession =
  peerConnection :: "ref option"
  dataChannel :: "ref option"
  stream :: "MediaStream option"
  audioElement :: "ref option"
  isInitialized :: bool
  retryCount :: int
  maxRetries :: int

text \<open>\<^verbatim>\<open>new CustomEvent(name, { detail: d })\<close>, recorded by its two arguments.\<close>

datatype CustomEvent = CustomEvent (eventName: string) (detail: jsvalue)

datatype console_line =
    LogRetrying int
  | LogEstablished
  | LogStreamingActive
  | LogReceivedEvent jsvalue
  | ErrorHandlingMessage thrown

text \<open>
  The service object with the part of the browser its methods act on: which tracks have been
  stopped, which data channels and peer connections have been closed, the \<^verbatim>\<open>srcObject\<close> of
  each audio element, the tracks added to each peer connection, the events given to
  \<^verbatim>\<open>window.dispatchEvent\<close> and the lines written to the console, both in order.
\<close>

record World =
  session :: AudioSession
  endedTracks :: "ref set"
  closedChannels :: "ref set"
  closedConnections :: "ref set"
  srcObject :: "ref \<rightharpoonup> MediaStream"
  senders :: "(ref \<times> ref) list"
  dispatched :: "CustomEvent list"
  console :: "console_line list"

definition initialSession :: AudioSession where
  "initialSession =
     \<lparr>peerConnection = None, dataChannel = None, stream = None, audioElement = None,
      isInitialized = False, retryCount = 0, maxRetries = 3\<rparr>"

definition initialWorld :: World where
  "initialWorld =
     \<lparr>session = initialSession, endedTracks = {}, closedChannels = {}, closedConnections = {},
      srcObject = Map.empty, senders = [], dispatched = [], console = []\<rparr>"

definition consoleWrite :: "console_line \<Rightarrow> World \<Rightarrow> World" where
  "consoleWrite l w = w\<lparr>console := console w @ [l]\<rparr>"

definition dispatchEvent :: "CustomEvent \<Rightarrow> World \<Rightarrow> World" where
  "dispatchEvent ev w = w\<lparr>dispatched := dispatched w @ [ev]\<rparr>"

text \<open>\<^verbatim>\<open>track.stop()\<close>, and \<^verbatim>\<open>getTracks().forEach(track => track.stop())\<close>.\<close>

definition stopTrack :: "ref \<Rightarrow> World \<Rightarrow> World" where
  "stopTrack t w = w\<lparr>endedTracks := insert t (endedTracks w)\<rparr>"

definition stopTracks :: "ref list \<Rightarrow> World \<Rightarrow> World" where
  "stopTracks ts w = fold stopTrack ts w"

section \<open>Streaming, teardown and disconnect\<close>

definition startStreaming :: "World \<Rightarrow> unit completion \<times> World" where
  "startStreaming w =
     (if \<not> isInitialized (session w) then (Throws (Error ''Session not initialized''), w)
      else if stream (session w) = None \<or> peerConnection (session w) = None
        then (Throws (Error ''Audio stream or peer connection not available''), w)
      else (Returns (), consoleWrite LogStreamingActive w))"

definition stopStreaming :: "World \<Rightarrow> unit completion \<times> World" where
  "stopStreaming w =
     (let w1 = (case stream (session w) of
                  Some ms \<Rightarrow>
                    (let w' = stopTracks (getTracks ms) w
                     in w'\<lparr>session := (session w')\<lparr>stream := None\<rparr>\<rparr>)
                | None \<Rightarrow> w)
      in (Returns (), w1\<lparr>session := (session w1)\<lparr>isInitialized := False\<rparr>\<rparr>))"

definition cleanupSession :: "World \<Rightarrow> unit completion \<times> World" where
  "cleanupSession w =
     bind (stopStreaming w) (\<lambda>_ w1.
       let w2 = (case dataChannel (session w1) of
                   Some dc \<Rightarrow> w1\<lparr>closedChannels := insert dc (closedChannels w1)\<rparr>
                 | None \<Rightarrow> w1);
           w3 = (case peerConnection (session w2) of
                   Some pc \<Rightarrow> w2\<lparr>closedConnections := insert pc (closedConnections w2)\<rparr>
                 | None \<Rightarrow> w2);
           w4 = (case audioElement (session w3) of
                   Some a \<Rightarrow> w3\<lparr>srcObject := (srcObject w3)(a := None)\<rparr>
                 | None \<Rightarrow> w3)
       in (Returns (), w4\<lparr>session := initialSession\<rparr>))"

definition disconnect :: "World \<Rightarrow> unit completion \<times> World" where
  "disconnect w = cleanupSession w"

section \<open>Initialization and retry\<close>

text \<open>
  What the platform and the configuration answer during one call of \<^verbatim>\<open>initializeSession\<close>:
  the exported key of \<^verbatim>\<open>../config\<close> (a file the sources do not hold; \<open>None\<close> is
  \<^verbatim>\<open>undefined\<close>), the capture request, the peer-connection constructor, the audio element
  made by \<^verbatim>\<open>document.createElement\<close>, the data channel, the offer, and the HTTP exchange.
  Every one of these platform calls may throw or reject (\<open>Inl\<close>, or \<open>Some\<close> for a promise
  of no value). Adding a fresh track to a fresh peer connection and registering the event
  listeners do not throw.
\<close>

record Response =
  ok :: bool
  body :: "thrown + string"

record Env =
  OPENAI_API_KEY :: "string option"
  getUserMedia :: "thrown + MediaStream"
  newRTCPeerConnection :: "thrown + ref"
  createElementAudio :: "thrown + ref"
  createDataChannel :: "thrown + ref"
  createOffer :: "thrown + string"
  setLocalDescription :: "thrown option"
  fetch :: "thrown + Response"
  setRemoteDescription :: "thrown option"

text \<open>\<^verbatim>\<open>!OPENAI_API_KEY\<close>: \<^verbatim>\<open>undefined\<close> and the empty string are falsy.\<close>

definition falsy :: "string option \<Rightarrow> bool" where
  "falsy k = (case k of None \<Rightarrow> True | Some s \<Rightarrow> s = [])"

definition setupMediaStream :: "Env \<Rightarrow> World \<Rightarrow> MediaStream completion \<times> World" where
  "setupMediaStream env w =
     catch (await (getUserMedia env) w)
       (\<lambda>error w'. (Throws (Error (''Failed to access microphone: '' @ messageOr error ''Unknown error'')), w'))"

definition createPeerConnection :: "Env \<Rightarrow> World \<Rightarrow> ref completion \<times> World" where
  "createPeerConnection env w = await (newRTCPeerConnection env) w"

definition addTrack :: "ref \<Rightarrow> ref \<Rightarrow> World \<Rightarrow> World" where
  "addTrack pc t w = w\<lparr>senders := senders w @ [(pc, t)]\<rparr>"

definition createAndSendOffer :: "Env \<Rightarrow> World \<Rightarrow> unit completion \<times> World" where
  "createAndSendOffer env w =
     (case peerConnection (session w) of
        None \<Rightarrow> (Throws (Error ''Peer connection not initialized''), w)
      | Some pc \<Rightarrow>
          bind (await (createOffer env) w) (\<lambda>offer w.
          bind (awaitVoid (setLocalDescription env) w) (\<lambda>_ w.
          bind (await (fetch env) w) (\<lambda>sdpResponse w.
            if \<not> ok sdpResponse then
              bind (await (body sdpResponse) w) (\<lambda>errorText w.
                (Throws (Error (''Failed to establish WebRTC connection: '' @ errorText)), w))
            else
              bind (await (body sdpResponse) w) (\<lambda>sdp w.
                awaitVoid (setRemoteDescription env) w)))))"

text \<open>The body of the \<^verbatim>\<open>try\<close> block of \<^verbatim>\<open>initializeSession\<close>, statement by statement.\<close>

definition initializeSession_try :: "Env \<Rightarrow> World \<Rightarrow> unit completion \<times> World" where
  "initializeSession_try env w =
     bind (cleanupSession w) (\<lambda>_ w.
       if falsy (OPENAI_API_KEY env) then (Throws (Error ''OpenAI API key is not configured''), w)
       else
         bind (setupMediaStream env w) (\<lambda>ms w.
         let w = w\<lparr>session := (session w)\<lparr>stream := Some ms\<rparr>\<rparr> in
         bind (createPeerConnection env w) (\<lambda>pc w.
         let w = w\<lparr>session := (session w)\<lparr>peerConnection := Some pc\<rparr>\<rparr>;
             w = (case (stream (session w), peerConnection (session w)) of
                    (Some s, Some p) \<Rightarrow> fold (addTrack p) (getTracks s) w
                  | _ \<Rightarrow> w)
         in
         bind (await (createElementAudio env) w) (\<lambda>audioElement w.
         let w = w\<lparr>session := (session w)\<lparr>audioElement := Some audioElement\<rparr>\<rparr> in
         bind (case peerConnection (session w) of
                 Some p \<Rightarrow>
                   bind (await (createDataChannel env) w) (\<lambda>dc w.
                     (Returns (), w\<lparr>session := (session w)\<lparr>dataChannel := Some dc\<rparr>\<rparr>))
               | None \<Rightarrow> (Returns (), w)) (\<lambda>_ w.
         bind (createAndSendOffer env w) (\<lambda>_ w.
         let w = consoleWrite LogEstablished w;
             w = w\<lparr>session := (session w)\<lparr>isInitialized := True\<rparr>\<rparr>;
             w = w\<lparr>session := (session w)\<lparr>retryCount := 0\<rparr>\<rparr>
         in (Returns (), w)))))))"

definition initializeSession :: "Env \<Rightarrow> World \<Rightarrow> unit completion \<times> World" where
  "initializeSession env w =
     catch (initializeSession_try env w)
       (\<lambda>error w. bind (cleanupSession w) (\<lambda>_ w. (Throws error, w)))"

definition handleConnectionFailure :: "Env \<Rightarrow> World \<Rightarrow> unit completion \<times> World" where
  "handleConnectionFailure env w =
     (if retryCount (session w) < maxRetries (session w) then
        (let w = w\<lparr>session := (session w)\<lparr>retryCount := retryCount (session w) + 1\<rparr>\<rparr>;
             w = consoleWrite (LogRetrying (retryCount (session w))) w
         in initializeSession env w)
      else
        bind (cleanupSession w) (\<lambda>_ w.
          (Throws (Error ''Connection failed after maximum retry attempts''), w)))"

text \<open>
  A run of transport-failure callbacks. The \<^verbatim>\<open>onconnectionstatechange\<close> callback of a peer
  connection calls \<^verbatim>\<open>handleConnectionFailure\<close>, without awaiting it, each time the connection
  state is \<^verbatim>\<open>failed\<close>. Here that happens once per element of the list, each time with what
  the platform answers during the retry it starts; how each call of
  \<^verbatim>\<open>handleConnectionFailure\<close> settled is collected in order.
\<close>

fun transportFailures :: "Env list \<Rightarrow> World \<Rightarrow> unit completion list \<times> World" where
  "transportFailures [] w = ([], w)"
| "transportFailures (env # envs) w =
     (case handleConnectionFailure env w of
        (c, w') \<Rightarrow> (case transportFailures envs w' of (cs, w'') \<Rightarrow> (c # cs, w'')))"

text \<open>The console lines \<^verbatim>\<open>Retrying connection (attempt n)\<close>: one per retry started.\<close>

fun isRetryLine :: "console_line \<Rightarrow> bool" where
  "isRetryLine (LogRetrying n) = True"
| "isRetryLine l = False"

section \<open>The data-channel message handler\<close>

record MessageEvent =
  data :: string

text \<open>
  \<^verbatim>\<open>JSON.parse\<close> is the platform's: the handler takes it as the parameter \<open>parse\<close>, which
  gives the parsed value or the SyntaxError it throws.
\<close>

definition handleDataChannelMessage ::
    "(string \<Rightarrow> thrown + jsvalue) \<Rightarrow> MessageEvent \<Rightarrow> World \<Rightarrow> unit completion \<times> World" where
  "handleDataChannelMessage parse event w =
     catch
       (bind (await (parse (data event)) w) (\<lambda>d w.
        bind (await (getProp d ''type'') w) (\<lambda>ty w.
          if ty = Str ''text'' then
            bind (await (getProp d ''text'') w) (\<lambda>v w.
              (Returns (), dispatchEvent (CustomEvent ''ai-message'' v) w))
          else if ty = Str ''transcription'' then
            bind (await (getProp d ''text'') w) (\<lambda>v w.
              (Returns (), dispatchEvent (CustomEvent ''transcription'' v) w))
          else if ty = Str ''error'' then
            bind (await (getProp d ''error'') w) (\<lambda>v w.
              (Returns (), dispatchEvent (CustomEvent ''call-error'' v) w))
          else (Returns (), consoleWrite (LogReceivedEvent d) w))))
       (\<lambda>error w. (Returns (), consoleWrite (ErrorHandlingMessage error) w))"

section \<open>The chat hook\<close>

record CallState =
  isConnected :: bool
  isListening :: bool
  error :: "string option"
  sessionId :: "string option"

datatype PermissionState = Granted | Denied | Prompt

record HookEnv =
  randomUUID :: "thrown + string"
  permissionsQuery :: "thrown + PermissionState"
  serviceEnv :: Env

record Hook =
  callState :: CallState
  permissionStatus :: "PermissionState option"
  service :: World

definition checkPermissions :: "HookEnv \<Rightarrow> Hook \<Rightarrow> bool completion \<times> Hook" where
  "checkPermissions henv h =
     catch
       (bind (await (permissionsQuery henv) h) (\<lambda>result h.
          let h = h\<lparr>permissionStatus := Some result\<rparr>
          in (Returns (result = Granted), h)))
       (\<lambda>error h.
          (Returns False,
           h\<lparr>callState := (callState h)\<lparr>error := Some ''Microphone permission check failed''\<rparr>\<rparr>))"

text \<open>The call of the service's \<^verbatim>\<open>initializeSession\<close> from the hook, on the service state the hook holds.\<close>

definition audioService_initializeSession :: "Env \<Rightarrow> Hook \<Rightarrow> unit completion \<times> Hook" where
  "audioService_initializeSession env h =
     (case initializeSession env (service h) of (c, w) \<Rightarrow> (c, h\<lparr>service := w\<rparr>))"

definition initializeCall :: "HookEnv \<Rightarrow> Hook \<Rightarrow> bool completion \<times> Hook" where
  "initializeCall henv h =
     catch
       (bind (await (randomUUID henv) h) (\<lambda>sid h.
        bind (checkPermissions henv h) (\<lambda>hasPermission h.
          if \<not> hasPermission then (Throws (Error ''Microphone permission not granted''), h)
          else
            bind (audioService_initializeSession (serviceEnv henv) h) (\<lambda>_ h.
              (Returns True,
               h\<lparr>callState := (callState h)\<lparr>isConnected := True, sessionId := Some sid, error := None\<rparr>\<rparr>)))))
       (\<lambda>err h.
          (Returns False,
           h\<lparr>callState := (callState h)
                \<lparr>error := Some (messageOr err ''Failed to initialize call''),
                 isConnected := False, sessionId := None\<rparr>\<rparr>))"

section \<open>Concrete platform answers and states\<close>

text \<open>
  A platform on which every step of the \<open>n\<close>-th initialization succeeds, handing out fresh
  objects, and the state the first such initialization leaves.
\<close>

definition okEnv :: "nat \<Rightarrow> Env" where
  "okEnv n =
     \<lparr>OPENAI_API_KEY = Some ''sk-test'',
      getUserMedia = Inr (MediaStream [10 * n]),
      newRTCPeerConnection = Inr (10 * n + 1),
      createElementAudio = Inr (10 * n + 2),
      createDataChannel = Inr (10 * n + 3),
      createOffer = Inr ''v=0 offer'',
      setLocalDescription = None,
      fetch = Inr \<lparr>ok = True, body = Inr ''v=0 answer''\<rparr>,
      setRemoteDescription = None\<rparr>"

definition liveWorld :: World where
  "liveWorld =
     \<lparr>session = \<lparr>peerConnection = Some 1, dataChannel = Some 3, stream = Some (MediaStream [0]),
                 audioElement = Some 2, isInitialized = True, retryCount = 0, maxRetries = 3\<rparr>,
      endedTracks = {}, closedChannels = {}, closedConnections = {},
      srcObject = Map.empty, senders = [(1, 0)], dispatched = [], console = [LogEstablished]\<rparr>"

text \<open>The three failures the specification names: no key, capture refused, HTTP status not 2xx.\<close>

definition noKeyEnv :: Env where
  "noKeyEnv = (okEnv 1)\<lparr>OPENAI_API_KEY := None\<rparr>"

definition captureDeniedEnv :: Env where
  "captureDeniedEnv = (okEnv 1)\<lparr>getUserMedia := Inl (Error ''Permission denied'')\<rparr>"

definition unauthorizedEnv :: Env where
  "unauthorizedEnv = (okEnv 1)\<lparr>fetch := Inr \<lparr>ok = False, body = Inr ''invalid api key''\<rparr>\<rparr>"

text \<open>
  A \<^verbatim>\<open>JSON.parse\<close> that knows five well-formed payloads and rejects every other text.
\<close>

definition sampleParse :: "string \<Rightarrow> thrown + jsvalue" where
  "sampleParse s =
     (if s = ''{\"type\":\"text\",\"text\":\"hello\"}''
        then Inr (Obj [(''type'', Str ''text''), (''text'', Str ''hello'')])
      else if s = ''{\"type\":\"transcription\",\"text\":\"hi there\"}''
        then Inr (Obj [(''type'', Str ''transcription''), (''text'', Str ''hi there'')])
      else if s = ''{\"type\":\"error\",\"error\":\"rate limited\"}''
        then Inr (Obj [(''type'', Str ''error''), (''error'', Str ''rate limited'')])
      else if s = ''{\"type\":\"session.created\"}''
        then Inr (Obj [(''type'', Str ''session.created'')])
      else if s = ''null'' then Inr Null
      else Inl (Error ''Unexpected token''))"

text \<open>The hook as first rendered, and a platform that answers the permission query with \<open>p\<close>.\<close>

definition readyHook :: Hook where
  "readyHook =
     \<lparr>callState = \<lparr>isConnected = False, isListening = False, error = None, sessionId = None\<rparr>,
      permissionStatus = None, service = initialWorld\<rparr>"

definition hookEnv :: "PermissionState \<Rightarrow> Env \<Rightarrow> HookEnv" where
  "hookEnv p env =
     \<lparr>randomUUID = Inr ''123e4567-e89b-42d3-a456-426614174000'',
      permissionsQuery = Inr p, serviceEnv = env\<rparr>"

section \<open>Properties of teardown\<close>

lemma stopTracks_eq: "stopTracks ts w = w\<lparr>endedTracks := endedTracks w \<union> set ts\<rparr>"
  unfolding stopTracks_def
  by (induction ts arbitrary: w) (auto simp: stopTrack_def)

lemma stopStreaming_eq:
  "stopStreaming w =
     (Returns (),
      w\<lparr>session := (session w)\<lparr>stream := None, isInitialized := False\<rparr>,
        endedTracks := endedTracks w \<union>
          (case stream (session w) of None \<Rightarrow> {} | Some ms \<Rightarrow> set (getTracks ms))\<rparr>)"
  by (simp add: stopStreaming_def Let_def stopTracks_eq split: option.splits)

lemma cleanupSession_eq:
  "cleanupSession w =
     (Returns (),
      w\<lparr>session := initialSession,
        endedTracks := endedTracks w \<union>
          (case stream (session w) of None \<Rightarrow> {} | Some ms \<Rightarrow> set (getTracks ms)),
        closedChannels := closedChannels w \<union> set_option (dataChannel (session w)),
        closedConnections := closedConnections w \<union> set_option (peerConnection (session w)),
        srcObject := (case audioElement (session w) of
                        None \<Rightarrow> srcObject w
                      | Some a \<Rightarrow> (srcObject w)(a := None))\<rparr>)"
  by (simp add: cleanupSession_def bind_def stopStreaming_eq Let_def split: option.splits)

lemma cleanupSession_idem:
  "cleanupSession (snd (cleanupSession w)) = (Returns (), snd (cleanupSession w))"
  by (simp add: cleanupSession_eq initialSession_def)

text \<open>
  C5. In every state \<^verbatim>\<open>stopStreaming()\<close> returns normally; afterwards every track of the
  stream the session held is stopped, the stream handle is null and the initialized flag is
  false, and the peer connection, data channel, audio element, retry count and retry limit
  of the session are what they were.
\<close>

theorem stopStreaming_effect:
  "fst (stopStreaming w) = Returns () \<and>
   (\<forall>ms. stream (session w) = Some ms \<longrightarrow>
      (\<forall>t \<in> set (getTracks ms). t \<in> endedTracks (snd (stopStreaming w)))) \<and>
   stream (session (snd (stopStreaming w))) = None \<and>
   isInitialized (session (snd (stopStreaming w))) = False \<and>
   peerConnection (session (snd (stopStreaming w))) = peerConnection (session w) \<and>
   dataChannel (session (snd (stopStreaming w))) = dataChannel (session w) \<and>
   audioElement (session (snd (stopStreaming w))) = audioElement (session w) \<and>
   retryCount (session (snd (stopStreaming w))) = retryCount (session w) \<and>
   maxRetries (session (snd (stopStreaming w))) = maxRetries (session w)"
  by (simp add: stopStreaming_eq)

theorem stopStreaming_effect_witness:
  "fst (stopStreaming liveWorld) = Returns () \<and>
   0 \<in> endedTracks (snd (stopStreaming liveWorld)) \<and>
   session (snd (stopStreaming liveWorld)) =
     \<lparr>peerConnection = Some 1, dataChannel = Some 3, stream = None, audioElement = Some 2,
      isInitialized = False, retryCount = 0, maxRetries = 3\<rparr>"
  using stopStreaming_effect [of liveWorld]
  by (simp add: liveWorld_def stopStreaming_eq)

text \<open>
  C3. In every state \<^verbatim>\<open>disconnect()\<close> returns normally, and afterwards the stream handle is
  null and every track of the stream the session held is stopped, the data channel and the
  peer connection the session held are closed and their handles null, the audio element
  handle is null (and the element's \<^verbatim>\<open>srcObject\<close> cleared), the initialized flag is false
  and the retry count is 0.
\<close>

theorem disconnect_releases_everything:
  "fst (disconnect w) = Returns () \<and>
   stream (session (snd (disconnect w))) = None \<and>
   (\<forall>ms. stream (session w) = Some ms \<longrightarrow>
      (\<forall>t \<in> set (getTracks ms). t \<in> endedTracks (snd (disconnect w)))) \<and>
   dataChannel (session (snd (disconnect w))) = None \<and>
   (\<forall>dc. dataChannel (session w) = Some dc \<longrightarrow> dc \<in> closedChannels (snd (disconnect w))) \<and>
   peerConnection (session (snd (disconnect w))) = None \<and>
   (\<forall>pc. peerConnection (session w) = Some pc \<longrightarrow> pc \<in> closedConnections (snd (disconnect w))) \<and>
   audioElement (session (snd (disconnect w))) = None \<and>
   (\<forall>a. audioElement (session w) = Some a \<longrightarrow> srcObject (snd (disconnect w)) a = None) \<and>
   isInitialized (session (snd (disconnect w))) = False \<and>
   retryCount (session (snd (disconnect w))) = 0"
  by (simp add: disconnect_def cleanupSession_eq initialSession_def)

theorem disconnect_releases_everything_witness:
  "disconnect liveWorld =
     (Returns (),
      liveWorld\<lparr>session := initialSession, endedTracks := {0}, closedChannels := {3},
                closedConnections := {1}\<rparr>) \<and>
   0 \<in> endedTracks (snd (disconnect liveWorld)) \<and>
   3 \<in> closedChannels (snd (disconnect liveWorld)) \<and>
   1 \<in> closedConnections (snd (disconnect liveWorld)) \<and>
   srcObject (snd (disconnect liveWorld)) 2 = None"
  using disconnect_releases_everything [of liveWorld]
  by (simp add: liveWorld_def disconnect_def cleanupSession_eq)

section \<open>Properties of the guards\<close>

text \<open>
  C9. \<^verbatim>\<open>startStreaming()\<close> changes no field of the session, whether it throws or returns;
  nor does it touch any platform object (it only writes one console line when it returns).
\<close>

theorem startStreaming_frame:
  "session (snd (startStreaming w)) = session w \<and>
   endedTracks (snd (startStreaming w)) = endedTracks w \<and>
   closedChannels (snd (startStreaming w)) = closedChannels w \<and>
   closedConnections (snd (startStreaming w)) = closedConnections w \<and>
   srcObject (snd (startStreaming w)) = srcObject w \<and>
   senders (snd (startStreaming w)) = senders w \<and>
   dispatched (snd (startStreaming w)) = dispatched w"
  by (simp add: startStreaming_def consoleWrite_def)

text \<open>
  C4, as stated, fails: on the session as first constructed (initialized flag false)
  \<^verbatim>\<open>stopStreaming()\<close> and \<^verbatim>\<open>disconnect()\<close> return normally instead of raising an error.
\<close>

theorem guards_counterexample:
  "\<not> isInitialized (session initialWorld) \<and>
   fst (stopStreaming initialWorld) = Returns () \<and>
   fst (disconnect initialWorld) = Returns ()"
  by (simp add: initialWorld_def initialSession_def stopStreaming_def disconnect_def
      cleanupSession_def bind_def)

text \<open>
  C4, amended. Only \<^verbatim>\<open>startStreaming\<close> guards on the initialization flag: when the flag is
  false it throws \<^verbatim>\<open>Session not initialized\<close> and leaves the state as it was.
  \<^verbatim>\<open>stopStreaming\<close> and \<^verbatim>\<open>disconnect\<close> have no guard: in every state, initialized or not,
  they return normally.
\<close>

theorem guard_only_in_startStreaming:
  "(\<not> isInitialized (session w) \<longrightarrow>
      startStreaming w = (Throws (Error ''Session not initialized''), w)) \<and>
   fst (stopStreaming w) = Returns () \<and>
   fst (disconnect w) = Returns ()"
  by (simp add: startStreaming_def stopStreaming_eq disconnect_def cleanupSession_eq)

theorem guard_only_in_startStreaming_witness:
  "startStreaming initialWorld = (Throws (Error ''Session not initialized''), initialWorld) \<and>
   fst (stopStreaming initialWorld) = Returns () \<and>
   fst (disconnect initialWorld) = Returns ()"
  using guard_only_in_startStreaming [of initialWorld]
  by (simp add: initialWorld_def initialSession_def)

section \<open>Properties of initialization\<close>

lemma addTracks_eq: "fold (addTrack p) ts w = w\<lparr>senders := senders w @ map (Pair p) ts\<rparr>"
  by (induction ts arbitrary: w) (auto simp: addTrack_def)

lemmas env_steps = initializeSession_def initializeSession_try_def catch_def bind_def
  cleanupSession_eq setupMediaStream_def createPeerConnection_def createAndSendOffer_def
  await_def awaitVoid_def Let_def addTracks_eq consoleWrite_def initialSession_def

lemma initializeSession_completion:
  "fst (initializeSession env w) = fst (initializeSession_try env w)"
  by (cases "initializeSession_try env w" rule: prod.exhaust;
      cases "fst (initializeSession_try env w)")
     (auto simp: initializeSession_def catch_def bind_def cleanupSession_eq)

lemma initializeSession_throws_session:
  "fst (initializeSession env w) = Throws e \<Longrightarrow>
   session (snd (initializeSession env w)) = initialSession"
  by (cases "initializeSession_try env w" rule: prod.exhaust;
      cases "fst (initializeSession_try env w)")
     (auto simp: initializeSession_def catch_def bind_def cleanupSession_eq)

lemma liveWorld_reached: "initializeSession (okEnv 0) initialWorld = (Returns (), liveWorld)"
  by (simp add: env_steps okEnv_def initialWorld_def liveWorld_def falsy_def)

text \<open>
  C2. Whenever \<^verbatim>\<open>initializeSession\<close> throws, what it throws is the error the \<^verbatim>\<open>try\<close> block
  raised, and the session it leaves has all four handles null, the initialized flag false
  and the retry count 0. The three failures the specification names throw: a missing key,
  a refused capture (with the wrapped message), and an HTTP answer that is not \<^verbatim>\<open>ok\<close>
  (with the answer's text in the message).
\<close>

theorem initializeSession_failure:
  "(\<forall>e. fst (initializeSession env w) = Throws e \<longrightarrow>
      fst (initializeSession_try env w) = Throws e \<and>
      peerConnection (session (snd (initializeSession env w))) = None \<and>
      dataChannel (session (snd (initializeSession env w))) = None \<and>
      stream (session (snd (initializeSession env w))) = None \<and>
      audioElement (session (snd (initializeSession env w))) = None \<and>
      isInitialized (session (snd (initializeSession env w))) = False \<and>
      retryCount (session (snd (initializeSession env w))) = 0) \<and>
   (falsy (OPENAI_API_KEY env) \<longrightarrow>
      fst (initializeSession env w) = Throws (Error ''OpenAI API key is not configured'')) \<and>
   (\<forall>err. \<not> falsy (OPENAI_API_KEY env) \<and> getUserMedia env = Inl err \<longrightarrow>
      fst (initializeSession env w) =
        Throws (Error (''Failed to access microphone: '' @ messageOr err ''Unknown error''))) \<and>
   (\<forall>ms pc a dc offer resp errorText.
      \<not> falsy (OPENAI_API_KEY env) \<and> getUserMedia env = Inr ms \<and>
      newRTCPeerConnection env = Inr pc \<and> createElementAudio env = Inr a \<and>
      createDataChannel env = Inr dc \<and>
      createOffer env = Inr offer \<and> setLocalDescription env = None \<and>
      fetch env = Inr resp \<and> \<not> ok resp \<and> body resp = Inr errorText \<longrightarrow>
      fst (initializeSession env w) =
        Throws (Error (''Failed to establish WebRTC connection: '' @ errorText)))"
proof (intro conjI allI impI)
  fix e assume t: "fst (initializeSession env w) = Throws e"
  then show "fst (initializeSession_try env w) = Throws e"
    by (simp add: initializeSession_completion)
  from initializeSession_throws_session [OF t]
  show "peerConnection (session (snd (initializeSession env w))) = None"
    and "dataChannel (session (snd (initializeSession env w))) = None"
    and "stream (session (snd (initializeSession env w))) = None"
    and "audioElement (session (snd (initializeSession env w))) = None"
    and "isInitialized (session (snd (initializeSession env w))) = False"
    and "retryCount (session (snd (initializeSession env w))) = 0"
    by (simp_all add: initialSession_def)
next
  assume "falsy (OPENAI_API_KEY env)"
  then show "fst (initializeSession env w) = Throws (Error ''OpenAI API key is not configured'')"
    by (simp add: initializeSession_completion initializeSession_try_def bind_def cleanupSession_eq)
next
  fix err assume "\<not> falsy (OPENAI_API_KEY env) \<and> getUserMedia env = Inl err"
  then show "fst (initializeSession env w) =
        Throws (Error (''Failed to access microphone: '' @ messageOr err ''Unknown error''))"
    by (simp add: initializeSession_completion initializeSession_try_def bind_def cleanupSession_eq
        setupMediaStream_def catch_def await_def)
next
  fix ms pc a dc offer resp errorText
  assume "\<not> falsy (OPENAI_API_KEY env) \<and> getUserMedia env = Inr ms \<and>
      newRTCPeerConnection env = Inr pc \<and> createElementAudio env = Inr a \<and>
      createDataChannel env = Inr dc \<and>
      createOffer env = Inr offer \<and> setLocalDescription env = None \<and>
      fetch env = Inr resp \<and> \<not> ok resp \<and> body resp = Inr errorText"
  then show "fst (initializeSession env w) =
        Throws (Error (''Failed to establish WebRTC connection: '' @ errorText))"
    by (simp add: initializeSession_completion initializeSession_try_def bind_def cleanupSession_eq
        setupMediaStream_def catch_def await_def awaitVoid_def createPeerConnection_def
        createAndSendOffer_def Let_def addTracks_eq initialSession_def)
qed

theorem initializeSession_failure_witness:
  "initializeSession noKeyEnv liveWorld =
     (Throws (Error ''OpenAI API key is not configured''),
      liveWorld\<lparr>session := initialSession, endedTracks := {0}, closedChannels := {3},
                closedConnections := {1}\<rparr>) \<and>
   fst (initializeSession captureDeniedEnv liveWorld) =
     Throws (Error ''Failed to access microphone: Permission denied'') \<and>
   session (snd (initializeSession captureDeniedEnv liveWorld)) = initialSession \<and>
   fst (initializeSession unauthorizedEnv liveWorld) =
     Throws (Error ''Failed to establish WebRTC connection: invalid api key'') \<and>
   session (snd (initializeSession unauthorizedEnv liveWorld)) = initialSession \<and>
   endedTracks (snd (initializeSession unauthorizedEnv liveWorld)) = {10, 0} \<and>
   closedChannels (snd (initializeSession unauthorizedEnv liveWorld)) = {13, 3} \<and>
   closedConnections (snd (initializeSession unauthorizedEnv liveWorld)) = {11, 1}"
  using initializeSession_failure [of noKeyEnv liveWorld]
    initializeSession_failure [of captureDeniedEnv liveWorld]
    initializeSession_failure [of unauthorizedEnv liveWorld]
  by (simp add: env_steps okEnv_def noKeyEnv_def captureDeniedEnv_def unauthorizedEnv_def
      liveWorld_def falsy_def)

lemma retry_fields_after_initializeSession:
  "retryCount (session (snd (initializeSession env w))) = 0 \<and>
   maxRetries (session (snd (initializeSession env w))) = 3"
  by (cases "setLocalDescription env"; cases "setRemoteDescription env")
     (simp_all add: env_steps split: sum.splits)

lemma session_independent:
  "session (snd (initializeSession env (w\<lparr>session := s\<rparr>))) =
   session (snd (initializeSession env w))"
  by (cases "setLocalDescription env"; cases "setRemoteDescription env")
     (simp_all add: env_steps split: sum.splits)

lemma teardown_kept:
  "endedTracks (snd (cleanupSession w)) \<subseteq> endedTracks (snd (initializeSession env w)) \<and>
   closedChannels (snd (cleanupSession w)) \<subseteq> closedChannels (snd (initializeSession env w)) \<and>
   closedConnections (snd (cleanupSession w)) \<subseteq> closedConnections (snd (initializeSession env w))"
  by (cases "setLocalDescription env"; cases "setRemoteDescription env")
     (auto simp add: env_steps split: sum.splits)

lemma initializeSession_try_after_cleanup:
  "initializeSession_try env (snd (cleanupSession w)) = initializeSession_try env w"
  by (simp add: initializeSession_try_def cleanupSession_idem)
     (simp add: bind_def cleanupSession_eq)

lemma srcObject_initializeSession:
  "audioElement (session w) = Some a \<Longrightarrow> srcObject (snd (initializeSession env w)) a = None"
  by (cases "setLocalDescription env"; cases "setRemoteDescription env")
     (simp_all add: env_steps split: sum.splits)

lemma released_on_return:
  "fst (initializeSession env w) = Returns () \<longrightarrow>
   endedTracks (snd (initializeSession env w)) = endedTracks (snd (cleanupSession w)) \<and>
   closedChannels (snd (initializeSession env w)) = closedChannels (snd (cleanupSession w)) \<and>
   closedConnections (snd (initializeSession env w)) = closedConnections (snd (cleanupSession w))"
  by (cases "setLocalDescription env"; cases "setRemoteDescription env")
     (simp_all add: env_steps split: sum.splits)

text \<open>
  C7. A call of \<^verbatim>\<open>initializeSession\<close> first tears the prior session down, whatever the
  platform answers afterwards (also when the very first check, the key, fails): every track
  of the stream the prior session held is stopped, the data channel and the peer connection
  it held are closed, and the \<^verbatim>\<open>srcObject\<close> of its audio element is cleared. The call does
  exactly what it does on the state in which all that has already happened and the session
  record is the initial one; and when it returns normally, the tracks stopped and the
  channels and connections closed are those already so before the call and those of the
  prior session, no others, so a fresh handle of the new attempt is not among them. The session record
  is made anew: the session the call leaves is the same whatever the fields of the prior
  record were, so no field of the prior record (the retry count included) survives.
\<close>

theorem initializeSession_recreates_session:
  "initializeSession env w =
     initializeSession env
       (w\<lparr>session := initialSession,
          endedTracks := endedTracks w \<union>
            (case stream (session w) of None \<Rightarrow> {} | Some ms \<Rightarrow> set (getTracks ms)),
          closedChannels := closedChannels w \<union> set_option (dataChannel (session w)),
          closedConnections := closedConnections w \<union> set_option (peerConnection (session w)),
          srcObject := (case audioElement (session w) of
                          None \<Rightarrow> srcObject w
                        | Some a \<Rightarrow> (srcObject w)(a := None))\<rparr>) \<and>
   (\<forall>ms. stream (session w) = Some ms \<longrightarrow>
      (\<forall>t \<in> set (getTracks ms). t \<in> endedTracks (snd (initializeSession env w)))) \<and>
   (\<forall>dc. dataChannel (session w) = Some dc \<longrightarrow>
      dc \<in> closedChannels (snd (initializeSession env w))) \<and>
   (\<forall>pc. peerConnection (session w) = Some pc \<longrightarrow>
      pc \<in> closedConnections (snd (initializeSession env w))) \<and>
   (\<forall>a. audioElement (session w) = Some a \<longrightarrow>
      srcObject (snd (initializeSession env w)) a = None) \<and>
   (fst (initializeSession env w) = Returns () \<longrightarrow>
      endedTracks (snd (initializeSession env w)) =
        endedTracks w \<union>
          (case stream (session w) of None \<Rightarrow> {} | Some ms \<Rightarrow> set (getTracks ms)) \<and>
      closedChannels (snd (initializeSession env w)) =
        closedChannels w \<union> set_option (dataChannel (session w)) \<and>
      closedConnections (snd (initializeSession env w)) =
        closedConnections w \<union> set_option (peerConnection (session w))) \<and>
   session (snd (initializeSession env (w\<lparr>session := s\<rparr>))) =
     session (snd (initializeSession env w)) \<and>
   initializeSession env w = initializeSession env (snd (disconnect w)) \<and>
   endedTracks (snd (disconnect w)) \<subseteq> endedTracks (snd (initializeSession env w)) \<and>
   closedChannels (snd (disconnect w)) \<subseteq> closedChannels (snd (initializeSession env w)) \<and>
   closedConnections (snd (disconnect w)) \<subseteq> closedConnections (snd (initializeSession env w))"
proof -
  have again: "initializeSession env (snd (cleanupSession w)) = initializeSession env w"
    by (simp add: initializeSession_def initializeSession_try_after_cleanup)
  have kept:
    "endedTracks (snd (cleanupSession w)) \<subseteq> endedTracks (snd (initializeSession env w))"
    "closedChannels (snd (cleanupSession w)) \<subseteq> closedChannels (snd (initializeSession env w))"
    "closedConnections (snd (cleanupSession w)) \<subseteq> closedConnections (snd (initializeSession env w))"
    using teardown_kept [of w env] by simp_all
  have explicit: "initializeSession env w =
     initializeSession env
       (w\<lparr>session := initialSession,
          endedTracks := endedTracks w \<union>
            (case stream (session w) of None \<Rightarrow> {} | Some ms \<Rightarrow> set (getTracks ms)),
          closedChannels := closedChannels w \<union> set_option (dataChannel (session w)),
          closedConnections := closedConnections w \<union> set_option (peerConnection (session w)),
          srcObject := (case audioElement (session w) of
                          None \<Rightarrow> srcObject w
                        | Some a \<Rightarrow> (srcObject w)(a := None))\<rparr>)"
    using again by (simp add: cleanupSession_eq)
  have tracks: "\<forall>ms. stream (session w) = Some ms \<longrightarrow>
      (\<forall>t \<in> set (getTracks ms). t \<in> endedTracks (snd (initializeSession env w)))"
    using kept(1) by (auto simp: cleanupSession_eq)
  have chan: "\<forall>dc. dataChannel (session w) = Some dc \<longrightarrow>
      dc \<in> closedChannels (snd (initializeSession env w))"
    using kept(2) by (auto simp: cleanupSession_eq)
  have conn: "\<forall>pc. peerConnection (session w) = Some pc \<longrightarrow>
      pc \<in> closedConnections (snd (initializeSession env w))"
    using kept(3) by (auto simp: cleanupSession_eq)
  have src: "\<forall>a. audioElement (session w) = Some a \<longrightarrow>
      srcObject (snd (initializeSession env w)) a = None"
    by (simp add: srcObject_initializeSession)
  have exact: "fst (initializeSession env w) = Returns () \<longrightarrow>
      endedTracks (snd (initializeSession env w)) =
        endedTracks w \<union>
          (case stream (session w) of None \<Rightarrow> {} | Some ms \<Rightarrow> set (getTracks ms)) \<and>
      closedChannels (snd (initializeSession env w)) =
        closedChannels w \<union> set_option (dataChannel (session w)) \<and>
      closedConnections (snd (initializeSession env w)) =
        closedConnections w \<union> set_option (peerConnection (session w))"
    using released_on_return [of env w] by (simp add: cleanupSession_eq)
  have indep: "session (snd (initializeSession env (w\<lparr>session := s\<rparr>))) =
     session (snd (initializeSession env w))"
    by (rule session_independent)
  have disc: "initializeSession env w = initializeSession env (snd (disconnect w))"
    using again by (simp add: disconnect_def)
  from explicit tracks chan conn src exact indep disc kept
  show ?thesis unfolding disconnect_def by blast
qed

theorem initializeSession_recreates_session_witness:
  "initializeSession (okEnv 1) liveWorld =
     (Returns (),
      \<lparr>session = \<lparr>peerConnection = Some 11, dataChannel = Some 13,
                   stream = Some (MediaStream [10]), audioElement = Some 12,
                   isInitialized = True, retryCount = 0, maxRetries = 3\<rparr>,
       endedTracks = {0}, closedChannels = {3}, closedConnections = {1},
       srcObject = Map.empty, senders = [(1, 0), (11, 10)], dispatched = [],
       console = [LogEstablished, LogEstablished]\<rparr>) \<and>
   0 \<in> endedTracks (snd (initializeSession noKeyEnv liveWorld)) \<and>
   3 \<in> closedChannels (snd (initializeSession noKeyEnv liveWorld)) \<and>
   1 \<in> closedConnections (snd (initializeSession noKeyEnv liveWorld)) \<and>
   srcObject (snd (initializeSession noKeyEnv liveWorld)) 2 = None \<and>
   session (snd (initializeSession (okEnv 1) (liveWorld\<lparr>session := initialSession\<rparr>))) =
     session (snd (initializeSession (okEnv 1) liveWorld))"
  using initializeSession_recreates_session [of "okEnv 1" liveWorld initialSession]
    initializeSession_recreates_session [of noKeyEnv liveWorld initialSession]
  by (simp add: env_steps okEnv_def noKeyEnv_def falsy_def liveWorld_def disconnect_def)

section \<open>Retry after a transport failure\<close>

text \<open>
  The branch that ends the retries does what the specification says once it is entered.
\<close>

lemma terminal_branch:
  "\<not> retryCount (session w) < maxRetries (session w) \<Longrightarrow>
   handleConnectionFailure env w =
     (Throws (Error ''Connection failed after maximum retry attempts''), snd (cleanupSession w))"
  by (simp add: handleConnectionFailure_def bind_def cleanupSession_eq)

text \<open>
  It is never entered twice in a row, and never after a retry: every call of
  \<^verbatim>\<open>handleConnectionFailure\<close> leaves the retry count at 0 and the limit at 3, because
  \<^verbatim>\<open>cleanupSession\<close>, which \<^verbatim>\<open>initializeSession\<close> runs first, replaces the whole session
  record. So the call that follows retries again, as attempt 1.
\<close>

lemma handleConnectionFailure_resets:
  "retryCount (session (snd (handleConnectionFailure env w))) = 0 \<and>
   maxRetries (session (snd (handleConnectionFailure env w))) = 3"
  by (simp add: handleConnectionFailure_def Let_def retry_fields_after_initializeSession
      bind_def cleanupSession_eq initialSession_def)

lemma next_failure_retries:
  "handleConnectionFailure env' (snd (handleConnectionFailure env w)) =
     (let w1 = snd (handleConnectionFailure env w)
      in initializeSession env'
           (consoleWrite (LogRetrying 1) (w1\<lparr>session := (session w1)\<lparr>retryCount := 1\<rparr>\<rparr>)))"
  using handleConnectionFailure_resets [of env w]
  by (simp add: handleConnectionFailure_def [of env'] Let_def consoleWrite_def)

text \<open>
  Hence no run of transport failures is ever cut off: from any state whose retry count is
  below the limit (every state a call of \<^verbatim>\<open>initializeSession\<close> or of
  \<^verbatim>\<open>handleConnectionFailure\<close> leaves), each failure of the run starts one more retry,
  however long the run and whatever the platform answers.
\<close>

lemma retry_lines_initializeSession:
  "filter isRetryLine (console (snd (initializeSession env w))) = filter isRetryLine (console w)"
  by (cases "setLocalDescription env"; cases "setRemoteDescription env")
     (simp_all add: env_steps split: sum.splits)

lemma snd_transportFailures_Cons:
  "snd (transportFailures (env # envs) w) =
   snd (transportFailures envs (snd (handleConnectionFailure env w)))"
  by (simp split: prod.splits)

lemma every_failure_retries:
  "retryCount (session w) < maxRetries (session w) \<Longrightarrow>
   length (filter isRetryLine (console (snd (transportFailures envs w)))) =
     length (filter isRetryLine (console w)) + length envs"
proof (induction envs arbitrary: w)
  case Nil
  then show ?case by simp
next
  case (Cons env envs)
  let ?w' = "snd (handleConnectionFailure env w)"
  have "retryCount (session ?w') < maxRetries (session ?w')"
    by (simp add: handleConnectionFailure_resets)
  from Cons.IH [OF this]
  have "length (filter isRetryLine (console (snd (transportFailures envs ?w')))) =
          length (filter isRetryLine (console ?w')) + length envs" .
  moreover have "length (filter isRetryLine (console ?w')) =
      length (filter isRetryLine (console w)) + 1"
    using Cons.prems
    by (simp add: handleConnectionFailure_def Let_def retry_lines_initializeSession)
       (simp add: consoleWrite_def)
  ultimately show ?case
    unfolding snd_transportFailures_Cons by simp
qed

lemma initializeSession_okEnv:
  "initializeSession (okEnv n) w =
     (Returns (),
      w\<lparr>session := \<lparr>peerConnection = Some (10 * n + 1), dataChannel = Some (10 * n + 3),
                    stream = Some (MediaStream [10 * n]), audioElement = Some (10 * n + 2),
                    isInitialized = True, retryCount = 0, maxRetries = 3\<rparr>,
        endedTracks := endedTracks w \<union>
          (case stream (session w) of None \<Rightarrow> {} | Some ms \<Rightarrow> set (getTracks ms)),
        closedChannels := closedChannels w \<union> set_option (dataChannel (session w)),
        closedConnections := closedConnections w \<union> set_option (peerConnection (session w)),
        srcObject := (case audioElement (session w) of
                        None \<Rightarrow> srcObject w
                      | Some a \<Rightarrow> (srcObject w)(a := None)),
        senders := senders w @ [(10 * n + 1, 10 * n)],
        console := console w @ [LogEstablished]\<rparr>)"
  by (simp add: env_steps okEnv_def falsy_def)

text \<open>
  C1, on the code. Four transport failures in a row on an established session, each retry
  negotiating successfully before the new transport fails in turn: all four calls of
  \<^verbatim>\<open>handleConnectionFailure\<close> return normally, each logs a retry as attempt 1 and
  initializes again (the console shows four retries, the fourth included), and no terminal
  error is thrown.
\<close>

theorem retries_are_unbounded:
  "fst (transportFailures [okEnv 1, okEnv 2, okEnv 3, okEnv 4] liveWorld) =
     [Returns (), Returns (), Returns (), Returns ()] \<and>
   console (snd (transportFailures [okEnv 1, okEnv 2, okEnv 3, okEnv 4] liveWorld)) =
     [LogEstablished,
      LogRetrying 1, LogEstablished,
      LogRetrying 1, LogEstablished,
      LogRetrying 1, LogEstablished,
      LogRetrying 1, LogEstablished] \<and>
   session (snd (transportFailures [okEnv 1, okEnv 2, okEnv 3, okEnv 4] liveWorld)) =
     \<lparr>peerConnection = Some 41, dataChannel = Some 43, stream = Some (MediaStream [40]),
      audioElement = Some 42, isInitialized = True, retryCount = 0, maxRetries = 3\<rparr>"
  by (simp add: handleConnectionFailure_def initializeSession_okEnv liveWorld_def Let_def
      consoleWrite_def)

section \<open>Properties of the message handler\<close>

lemmas handler_steps = handleDataChannelMessage_def catch_def bind_def await_def
  dispatchEvent_def consoleWrite_def

text \<open>
  C6. For a payload that \<^verbatim>\<open>JSON.parse\<close> accepts, the handler returns normally and the
  payload's \<^verbatim>\<open>type\<close> decides what it does: \<^verbatim>\<open>text\<close> dispatches exactly one \<^verbatim>\<open>ai-message\<close>
  event whose detail is the payload's \<^verbatim>\<open>text\<close>, \<^verbatim>\<open>transcription\<close> exactly one
  \<^verbatim>\<open>transcription\<close> event with the payload's \<^verbatim>\<open>text\<close>, \<^verbatim>\<open>error\<close> exactly one \<^verbatim>\<open>call-error\<close>
  event with the payload's \<^verbatim>\<open>error\<close>; with any other type (or none) nothing is dispatched
  and one console line is written. Nothing else of the state changes.
\<close>

theorem handleDataChannelMessage_dispatch:
  assumes "parse (data event) = Inr d"
  shows
  "(\<forall>v. getProp d ''type'' = Inr (Str ''text'') \<and> getProp d ''text'' = Inr v \<longrightarrow>
      handleDataChannelMessage parse event w =
        (Returns (), w\<lparr>dispatched := dispatched w @ [CustomEvent ''ai-message'' v]\<rparr>)) \<and>
   (\<forall>v. getProp d ''type'' = Inr (Str ''transcription'') \<and> getProp d ''text'' = Inr v \<longrightarrow>
      handleDataChannelMessage parse event w =
        (Returns (), w\<lparr>dispatched := dispatched w @ [CustomEvent ''transcription'' v]\<rparr>)) \<and>
   (\<forall>v. getProp d ''type'' = Inr (Str ''error'') \<and> getProp d ''error'' = Inr v \<longrightarrow>
      handleDataChannelMessage parse event w =
        (Returns (), w\<lparr>dispatched := dispatched w @ [CustomEvent ''call-error'' v]\<rparr>)) \<and>
   (getProp d ''type'' \<noteq> Inr (Str ''text'') \<and>
    getProp d ''type'' \<noteq> Inr (Str ''transcription'') \<and>
    getProp d ''type'' \<noteq> Inr (Str ''error'') \<longrightarrow>
      handleDataChannelMessage parse event w =
        (Returns (),
         w\<lparr>console := console w @
              [case getProp d ''type'' of
                 Inr ty \<Rightarrow> LogReceivedEvent d
               | Inl e \<Rightarrow> ErrorHandlingMessage e]\<rparr>))"
  using assms by (auto simp: handler_steps split: sum.splits)

theorem handleDataChannelMessage_dispatch_witness:
  "handleDataChannelMessage sampleParse \<lparr>data = ''{\"type\":\"text\",\"text\":\"hello\"}''\<rparr> liveWorld =
     (Returns (), liveWorld\<lparr>dispatched := [CustomEvent ''ai-message'' (Str ''hello'')]\<rparr>) \<and>
   handleDataChannelMessage sampleParse
       \<lparr>data = ''{\"type\":\"transcription\",\"text\":\"hi there\"}''\<rparr> liveWorld =
     (Returns (), liveWorld\<lparr>dispatched := [CustomEvent ''transcription'' (Str ''hi there'')]\<rparr>) \<and>
   handleDataChannelMessage sampleParse
       \<lparr>data = ''{\"type\":\"error\",\"error\":\"rate limited\"}''\<rparr> liveWorld =
     (Returns (), liveWorld\<lparr>dispatched := [CustomEvent ''call-error'' (Str ''rate limited'')]\<rparr>) \<and>
   handleDataChannelMessage sampleParse \<lparr>data = ''{\"type\":\"session.created\"}''\<rparr> liveWorld =
     (Returns (),
      liveWorld\<lparr>console :=
        [LogEstablished, LogReceivedEvent (Obj [(''type'', Str ''session.created'')])]\<rparr>) \<and>
   handleDataChannelMessage sampleParse \<lparr>data = ''null''\<rparr> liveWorld =
     (Returns (),
      liveWorld\<lparr>console :=
        [LogEstablished, ErrorHandlingMessage (Error ''Cannot read properties of null'')]\<rparr>)"
  using
    handleDataChannelMessage_dispatch [of sampleParse
      "\<lparr>data = ''{\"type\":\"text\",\"text\":\"hello\"}''\<rparr>"
      "Obj [(''type'', Str ''text''), (''text'', Str ''hello'')]" liveWorld]
    handleDataChannelMessage_dispatch [of sampleParse
      "\<lparr>data = ''{\"type\":\"transcription\",\"text\":\"hi there\"}''\<rparr>"
      "Obj [(''type'', Str ''transcription''), (''text'', Str ''hi there'')]" liveWorld]
    handleDataChannelMessage_dispatch [of sampleParse
      "\<lparr>data = ''{\"type\":\"error\",\"error\":\"rate limited\"}''\<rparr>"
      "Obj [(''type'', Str ''error''), (''error'', Str ''rate limited'')]" liveWorld]
    handleDataChannelMessage_dispatch [of sampleParse
      "\<lparr>data = ''{\"type\":\"session.created\"}''\<rparr>"
      "Obj [(''type'', Str ''session.created'')]" liveWorld]
    handleDataChannelMessage_dispatch [of sampleParse "\<lparr>data = ''null''\<rparr>" Null liveWorld]
  by (simp add: sampleParse_def liveWorld_def)

text \<open>
  C10. The handler never throws, whatever the payload and the state, and it never changes
  the session. When \<^verbatim>\<open>JSON.parse\<close> rejects the payload, the error it threw is written to
  the console and nothing else changes: no event is dispatched.
\<close>

theorem handleDataChannelMessage_never_throws:
  "fst (handleDataChannelMessage parse event w) = Returns () \<and>
   session (snd (handleDataChannelMessage parse event w)) = session w \<and>
   (\<forall>e. parse (data event) = Inl e \<longrightarrow>
      handleDataChannelMessage parse event w =
        (Returns (), w\<lparr>console := console w @ [ErrorHandlingMessage e]\<rparr>))"
  by (auto simp: handler_steps split: sum.splits)

theorem handleDataChannelMessage_never_throws_witness:
  "handleDataChannelMessage sampleParse \<lparr>data = ''{type: text''\<rparr> liveWorld =
     (Returns (),
      liveWorld\<lparr>console := [LogEstablished, ErrorHandlingMessage (Error ''Unexpected token'')]\<rparr>) \<and>
   dispatched (snd (handleDataChannelMessage sampleParse \<lparr>data = ''{type: text''\<rparr> liveWorld)) = [] \<and>
   session (snd (handleDataChannelMessage sampleParse \<lparr>data = ''{type: text''\<rparr> liveWorld)) =
     session liveWorld"
  using handleDataChannelMessage_never_throws [of sampleParse "\<lparr>data = ''{type: text''\<rparr>" liveWorld]
  by (simp add: sampleParse_def liveWorld_def)

section \<open>Properties of the chat hook\<close>

lemmas hook_steps = initializeCall_def checkPermissions_def audioService_initializeSession_def
  catch_def bind_def await_def

text \<open>
  C8. \<^verbatim>\<open>initializeCall\<close> never throws. When the permission is granted and
  \<^verbatim>\<open>initializeSession\<close> returns, it returns true with the call state connected, the generated
  identifier stored and the error cleared. When the permission is not granted (or its query
  fails), when \<^verbatim>\<open>initializeSession\<close> throws, or when the identifier cannot be generated, it
  returns false with the call state disconnected, the identifier null and the error set to
  the message of what was thrown (the fixed text \<^verbatim>\<open>Failed to initialize call\<close> for a thrown
  value that is not an \<^verbatim>\<open>Error\<close>).
\<close>

theorem initializeCall_outcomes:
  "(\<exists>b. fst (initializeCall henv h) = Returns b) \<and>
   (\<forall>sid. randomUUID henv = Inr sid \<and> permissionsQuery henv = Inr Granted \<and>
      fst (initializeSession (serviceEnv henv) (service h)) = Returns () \<longrightarrow>
      fst (initializeCall henv h) = Returns True \<and>
      callState (snd (initializeCall henv h)) =
        (callState h)\<lparr>isConnected := True, sessionId := Some sid, error := None\<rparr>) \<and>
   (\<forall>sid. randomUUID henv = Inr sid \<and> permissionsQuery henv \<noteq> Inr Granted \<longrightarrow>
      fst (initializeCall henv h) = Returns False \<and>
      callState (snd (initializeCall henv h)) =
        (callState h)\<lparr>error := Some ''Microphone permission not granted'',
                      isConnected := False, sessionId := None\<rparr>) \<and>
   (\<forall>sid e. randomUUID henv = Inr sid \<and> permissionsQuery henv = Inr Granted \<and>
      fst (initializeSession (serviceEnv henv) (service h)) = Throws e \<longrightarrow>
      fst (initializeCall henv h) = Returns False \<and>
      callState (snd (initializeCall henv h)) =
        (callState h)\<lparr>error := Some (messageOr e ''Failed to initialize call''),
                      isConnected := False, sessionId := None\<rparr>) \<and>
   (\<forall>e. randomUUID henv = Inl e \<longrightarrow>
      fst (initializeCall henv h) = Returns False \<and>
      callState (snd (initializeCall henv h)) =
        (callState h)\<lparr>error := Some (messageOr e ''Failed to initialize call''),
                      isConnected := False, sessionId := None\<rparr>)"
  by (cases "initializeSession (serviceEnv henv) (service h)" rule: prod.exhaust;
      cases "fst (initializeSession (serviceEnv henv) (service h))";
      cases "randomUUID henv"; cases "permissionsQuery henv")
     (auto simp: hook_steps)

theorem initializeCall_outcomes_witness:
  "initializeCall (hookEnv Granted (okEnv 0)) readyHook =
     (Returns True,
      \<lparr>callState = \<lparr>isConnected = True, isListening = False, error = None,
                     sessionId = Some ''123e4567-e89b-42d3-a456-426614174000''\<rparr>,
       permissionStatus = Some Granted, service = liveWorld\<rparr>) \<and>
   initializeCall (hookEnv Denied (okEnv 0)) readyHook =
     (Returns False,
      \<lparr>callState = \<lparr>isConnected = False, isListening = False,
                     error = Some ''Microphone permission not granted'', sessionId = None\<rparr>,
       permissionStatus = Some Denied, service = initialWorld\<rparr>) \<and>
   fst (initializeCall (hookEnv Granted unauthorizedEnv) readyHook) = Returns False \<and>
   callState (snd (initializeCall (hookEnv Granted unauthorizedEnv) readyHook)) =
     \<lparr>isConnected = False, isListening = False,
      error = Some ''Failed to establish WebRTC connection: invalid api key'', sessionId = None\<rparr>"
  using initializeCall_outcomes [of "hookEnv Granted (okEnv 0)" readyHook]
    initializeCall_outcomes [of "hookEnv Denied (okEnv 0)" readyHook]
    initializeCall_outcomes [of "hookEnv Granted unauthorizedEnv" readyHook]
  by (simp add: hook_steps hookEnv_def readyHook_def liveWorld_reached)
     (simp add: env_steps unauthorizedEnv_def okEnv_def initialWorld_def falsy_def)

end
